theory Spec2Isabelle
  imports Main
begin

section \<open>JavaScript values\<close>

text \<open>
  The composer stores untyped JavaScript values. Numbers are the integers the repository
  produces (\<^verbatim>\<open>Date.now()\<close> ids); an object is the list of its own properties in
  insertion order, each key once. Objects are values here: the properties below read
  them through \<open>map_of\<close>, so the place of a key in the enumeration order plays no role.
\<close>

datatype jsval =
    JUndefined
  | JNull
  | JBool bool
  | JNum int
  | JStr string
  | JArr "jsval list"
  | JObj "(string \<times> jsval) list"

type_synonym jsobject = "(string \<times> jsval) list"

text \<open>Property read \<^verbatim>\<open>o.k\<close>: a missing property reads as \<^verbatim>\<open>undefined\<close>.\<close>

definition get_prop :: "jsobject \<Rightarrow> string \<Rightarrow> jsval" where
  "get_prop obj k = (case map_of obj k of None \<Rightarrow> JUndefined | Some v \<Rightarrow> v)"

text \<open>
  Property write in an object literal, \<^verbatim>\<open>[key]: value\<close>: an existing key keeps its
  place and takes the new value, a new key goes to the end.
\<close>

fun obj_set :: "string \<Rightarrow> jsval \<Rightarrow> jsobject \<Rightarrow> jsobject" where
  "obj_set k v [] = [(k, v)]"
| "obj_set k v (p # ps) = (if fst p = k then (k, v) # ps else p # obj_set k v ps)"

text \<open>
  Object spread \<^verbatim>\<open>{...base, ...extra}\<close>: the properties of \<open>extra\<close> are written
  into a copy of \<open>base\<close>, one after the other.
\<close>

definition spread :: "jsobject \<Rightarrow> jsobject \<Rightarrow> jsobject" where
  "spread base extra = fold (\<lambda>p acc. obj_set (fst p) (snd p) acc) extra base"

text \<open>A default parameter \<^verbatim>\<open>(x = d)\<close> takes \<open>d\<close> when the argument is \<^verbatim>\<open>undefined\<close>.\<close>

definition default_value :: "jsval \<Rightarrow> jsval \<Rightarrow> jsval" where
  "default_value d x = (if x = JUndefined then d else x)"

text \<open>
  \<^verbatim>\<open>additionalData = {}\<close>: the argument of \<^verbatim>\<open>submit\<close> is an object, or absent
  (\<open>None\<close>), in which case it is the empty object.
\<close>

definition default_object :: "jsobject option \<Rightarrow> jsobject" where
  "default_object x = (case x of None \<Rightarrow> [] | Some obj \<Rightarrow> obj)"

section \<open>The composition session state\<close>

text \<open>
  The four state fields of \<^verbatim>\<open>composerStore.js\<close> and of the \<^verbatim>\<open>useState\<close> cells of the
  earlier provider. An attachment is an object \<^verbatim>\<open>{id, name, ...}\<close>.
\<close>

record composer_state =
  content :: jsval
  attachments :: "jsobject list"
  metadata :: jsobject
  isSubmitting :: bool

text \<open>
  The external submit handler \<^verbatim>\<open>onSubmit\<close> is awaited: it returns normally, throws or
  rejects with a value, or never settles.
\<close>

datatype outcome = Resolved | Rejected jsval | Pending

type_synonym handler = "jsobject \<Rightarrow> outcome"

datatype console_entry = ConsoleError string jsval | ConsoleWarn string

text \<open>
  What a call leaves behind besides the container: the payloads the handler was invoked
  with, in order, and the console output.
\<close>

record 'c world =
  container :: 'c
  handler_calls :: "jsobject list"
  console :: "console_entry list"

text \<open>
  How an \<^verbatim>\<open>async\<close> function ends: its promise is fulfilled, it is rejected with the
  value thrown, or it stays suspended at an \<^verbatim>\<open>await\<close> that never settles.
\<close>

datatype 'w flow = Normal 'w | Throw jsval 'w | Suspend 'w

fun world_of :: "'w flow \<Rightarrow> 'w" where
  "world_of (Normal w) = w"
| "world_of (Throw e w) = w"
| "world_of (Suspend w) = w"

definition console_error :: "string \<Rightarrow> jsval \<Rightarrow> 'c world \<Rightarrow> 'c world" where
  "console_error msg e w = w\<lparr>console := console w @ [ConsoleError msg e]\<rparr>"

definition console_warn :: "string \<Rightarrow> 'c world \<Rightarrow> 'c world" where
  "console_warn msg w = w\<lparr>console := console w @ [ConsoleWarn msg]\<rparr>"

definition invoke :: "handler \<Rightarrow> jsobject \<Rightarrow> 'c world \<Rightarrow> outcome \<times> 'c world" where
  "invoke onSubmit payload w =
     (onSubmit payload, w\<lparr>handler_calls := handler_calls w @ [payload]\<rparr>)"

section \<open>The store (composerStore.js)\<close>

text \<open>
  The store's state object holds the four fields and the actions. Only the
  \<^verbatim>\<open>submit\<close> action is ever replaced: it is the placeholder until the provider binds
  the wrapped handler.
\<close>

datatype submit_fn = Placeholder | Wrapped handler

record store_state = composer_state +
  submit :: submit_fn

definition createComposerStore :: "jsval \<Rightarrow> store_state" where
  "createComposerStore initialValue =
     \<lparr>content = default_value (JStr '''') initialValue, attachments = [], metadata = [],
      isSubmitting = False, submit = Placeholder\<rparr>"

text \<open>
  \<^verbatim>\<open>set(partial)\<close> merges the partial state into the state object, so an action
  changes the fields it names and no other. In \<^verbatim>\<open>removeAttachment\<close> the test
  \<^verbatim>\<open>a.id !== attachmentId\<close> is inequality of values: ids are primitive values
  (numbers, strings). In \<^verbatim>\<open>updateMetadata\<close> the copy \<^verbatim>\<open>...state.metadata\<close> of the
  previous object is that object as a value, into which \<^verbatim>\<open>[key]: value\<close> is written.
\<close>

definition updateContent :: "jsval \<Rightarrow> store_state \<Rightarrow> store_state" where
  "updateContent v s = s\<lparr>content := v\<rparr>"

definition addAttachment :: "jsobject \<Rightarrow> store_state \<Rightarrow> store_state" where
  "addAttachment attachment s = s\<lparr>attachments := attachments s @ [attachment]\<rparr>"

definition removeAttachment :: "jsval \<Rightarrow> store_state \<Rightarrow> store_state" where
  "removeAttachment attachmentId s =
     s\<lparr>attachments := filter (\<lambda>a. get_prop a ''id'' \<noteq> attachmentId) (attachments s)\<rparr>"

definition updateMetadata :: "string \<Rightarrow> jsval \<Rightarrow> store_state \<Rightarrow> store_state" where
  "updateMetadata k v s = s\<lparr>metadata := obj_set k v (metadata s)\<rparr>"

definition reset :: "store_state \<Rightarrow> store_state" where
  "reset s = s\<lparr>content := JStr '''', attachments := [], metadata := []\<rparr>"

definition placeholder_submit :: "store_state world \<Rightarrow> store_state world flow" where
  "placeholder_submit w = Normal (console_warn ''Submit function not initialized'' w)"

definition setState :: "('c \<Rightarrow> 'c) \<Rightarrow> 'c world \<Rightarrow> 'c world" where
  "setState f w = w\<lparr>container := f (container w)\<rparr>"

section \<open>The store-based provider (ComposerContext.jsx)\<close>

text \<open>
  The payload \<^verbatim>\<open>{content, attachments, metadata, ...additionalData}\<close> built from a
  snapshot of the state.
\<close>

definition snapshot_object :: "'a composer_state_scheme \<Rightarrow> jsobject" where
  "snapshot_object s =
     [(''content'', content s),
      (''attachments'', JArr (map JObj (attachments s))),
      (''metadata'', JObj (metadata s))]"

definition submit_payload :: "'a composer_state_scheme \<Rightarrow> jsobject option \<Rightarrow> jsobject" where
  "submit_payload s additionalData = spread (snapshot_object s) (default_object additionalData)"

text \<open>
  \<^verbatim>\<open>wrappedSubmit\<close>, block by block. The \<^verbatim>\<open>try\<close> block sets the flag, reads the
  snapshot, awaits the handler and resets; the \<^verbatim>\<open>catch\<close> block logs what was thrown
  and completes normally; the \<^verbatim>\<open>finally\<close> block clears the flag on every path that
  reaches it. The \<^verbatim>\<open>await\<close> is one step: no other action of the container runs while
  the handler is in flight.
\<close>

definition wrappedSubmit_try ::
  "handler \<Rightarrow> jsobject option \<Rightarrow> store_state world \<Rightarrow> store_state world flow" where
  "wrappedSubmit_try onSubmit additionalData w =
     (let w1 = setState (\<lambda>s. s\<lparr>isSubmitting := True\<rparr>) w;
          snapshot = container w1;
          (r, w2) = invoke onSubmit (submit_payload snapshot additionalData) w1
      in case r of
           Resolved \<Rightarrow> Normal (setState reset w2)
         | Rejected e \<Rightarrow> Throw e w2
         | Pending \<Rightarrow> Suspend w2)"

definition submit_catch :: "'c world flow \<Rightarrow> 'c world flow" where
  "submit_catch fl =
     (case fl of
        Throw e w \<Rightarrow> Normal (console_error ''Submission failed:'' e w)
      | Normal w \<Rightarrow> Normal w
      | Suspend w \<Rightarrow> Suspend w)"

definition wrappedSubmit_finally :: "store_state world flow \<Rightarrow> store_state world flow" where
  "wrappedSubmit_finally fl =
     (case fl of
        Normal w \<Rightarrow> Normal (setState (\<lambda>s. s\<lparr>isSubmitting := False\<rparr>) w)
      | Throw e w \<Rightarrow> Throw e (setState (\<lambda>s. s\<lparr>isSubmitting := False\<rparr>) w)
      | Suspend w \<Rightarrow> Suspend w)"

definition wrappedSubmit ::
  "handler \<Rightarrow> jsobject option \<Rightarrow> store_state world \<Rightarrow> store_state world flow" where
  "wrappedSubmit onSubmit additionalData w =
     wrappedSubmit_finally (submit_catch (wrappedSubmit_try onSubmit additionalData w))"

text \<open>
  Mounting the provider: the store is created once from \<^verbatim>\<open>initialValue\<close> (default
  \<^verbatim>\<open>''\<close>), and the effect binds \<^verbatim>\<open>wrappedSubmit\<close> over the current \<^verbatim>\<open>onSubmit\<close>.
\<close>

definition ComposerProvider_store :: "handler \<Rightarrow> jsval \<Rightarrow> store_state world" where
  "ComposerProvider_store onSubmit initialValue =
     setState (\<lambda>s. s\<lparr>submit := Wrapped onSubmit\<rparr>)
       \<lparr>container = createComposerStore (default_value (JStr '''') initialValue),
        handler_calls = [], console = []\<rparr>"

text \<open>A consumer calling \<^verbatim>\<open>submit(additionalData)\<close> runs whatever the store holds.\<close>

definition store_submit :: "jsobject option \<Rightarrow> store_state world \<Rightarrow> store_state world flow" where
  "store_submit additionalData w =
     (case submit (container w) of
        Placeholder \<Rightarrow> placeholder_submit w
      | Wrapped onSubmit \<Rightarrow> wrappedSubmit onSubmit additionalData w)"

section \<open>The useState-based provider (the earlier ComposerContext.jsx)\<close>

text \<open>
  The provider keeps four \<^verbatim>\<open>useState\<close> cells (\<open>hooks\<close>; \<^verbatim>\<open>useStateFn\<close> is left at
  its default, \<^verbatim>\<open>useState\<close>). Each render builds the context value from the cells
  (\<open>rendered\<close>): consumers read it, and the \<^verbatim>\<open>submit\<close> callback of that render has
  captured its \<^verbatim>\<open>content\<close>, \<^verbatim>\<open>attachments\<close> and \<^verbatim>\<open>metadata\<close>.
\<close>

record provider_state =
  hooks :: composer_state
  rendered :: composer_state

definition ComposerProvider_render :: "provider_state \<Rightarrow> provider_state" where
  "ComposerProvider_render p = p\<lparr>rendered := hooks p\<rparr>"

definition useState_cells :: "jsval \<Rightarrow> composer_state" where
  "useState_cells initialValue =
     \<lparr>content = initialValue, attachments = [], metadata = [], isSubmitting = False\<rparr>"

definition ComposerProvider_useState :: "jsval \<Rightarrow> provider_state world" where
  "ComposerProvider_useState initialValue =
     (let cells = useState_cells (default_value (JStr '''') initialValue)
      in \<lparr>container = \<lparr>hooks = cells, rendered = cells\<rparr>, handler_calls = [], console = []\<rparr>)"

text \<open>The state setters: each takes an updater from the previous value.\<close>

definition setContent :: "(jsval \<Rightarrow> jsval) \<Rightarrow> provider_state \<Rightarrow> provider_state" where
  "setContent f p = p\<lparr>hooks := (hooks p)\<lparr>content := f (content (hooks p))\<rparr>\<rparr>"

definition setAttachments ::
  "(jsobject list \<Rightarrow> jsobject list) \<Rightarrow> provider_state \<Rightarrow> provider_state" where
  "setAttachments f p = p\<lparr>hooks := (hooks p)\<lparr>attachments := f (attachments (hooks p))\<rparr>\<rparr>"

definition setMetadata :: "(jsobject \<Rightarrow> jsobject) \<Rightarrow> provider_state \<Rightarrow> provider_state" where
  "setMetadata f p = p\<lparr>hooks := (hooks p)\<lparr>metadata := f (metadata (hooks p))\<rparr>\<rparr>"

definition setIsSubmitting :: "(bool \<Rightarrow> bool) \<Rightarrow> provider_state \<Rightarrow> provider_state" where
  "setIsSubmitting f p = p\<lparr>hooks := (hooks p)\<lparr>isSubmitting := f (isSubmitting (hooks p))\<rparr>\<rparr>"

definition Provider_updateContent :: "jsval \<Rightarrow> provider_state \<Rightarrow> provider_state" where
  "Provider_updateContent v = setContent (\<lambda>_. v)"

definition Provider_addAttachment :: "jsobject \<Rightarrow> provider_state \<Rightarrow> provider_state" where
  "Provider_addAttachment attachment = setAttachments (\<lambda>prev. prev @ [attachment])"

definition Provider_removeAttachment :: "jsval \<Rightarrow> provider_state \<Rightarrow> provider_state" where
  "Provider_removeAttachment attachmentId =
     setAttachments (\<lambda>prev. filter (\<lambda>a. get_prop a ''id'' \<noteq> attachmentId) prev)"

definition Provider_updateMetadata :: "string \<Rightarrow> jsval \<Rightarrow> provider_state \<Rightarrow> provider_state" where
  "Provider_updateMetadata k v = setMetadata (\<lambda>prev. obj_set k v prev)"

definition Provider_reset :: "provider_state \<Rightarrow> provider_state" where
  "Provider_reset p =
     setMetadata (\<lambda>_. []) (setAttachments (\<lambda>_. []) (setContent (\<lambda>_. JStr '''') p))"

text \<open>
  \<^verbatim>\<open>submit\<close> of the useState-based provider: the payload is built from the values the
  callback captured at the last render; the reset is written out as three setter calls.
\<close>

definition Provider_submit_try ::
  "handler \<Rightarrow> jsobject option \<Rightarrow> provider_state world \<Rightarrow> provider_state world flow" where
  "Provider_submit_try onSubmit additionalData w =
     (let w1 = setState (setIsSubmitting (\<lambda>_. True)) w;
          (r, w2) = invoke onSubmit (submit_payload (rendered (container w)) additionalData) w1
      in case r of
           Resolved \<Rightarrow>
             Normal (setState (setMetadata (\<lambda>_. []))
                      (setState (setAttachments (\<lambda>_. []))
                        (setState (setContent (\<lambda>_. JStr '''')) w2)))
         | Rejected e \<Rightarrow> Throw e w2
         | Pending \<Rightarrow> Suspend w2)"

definition Provider_submit_finally ::
  "provider_state world flow \<Rightarrow> provider_state world flow" where
  "Provider_submit_finally fl =
     (case fl of
        Normal w \<Rightarrow> Normal (setState (setIsSubmitting (\<lambda>_. False)) w)
      | Throw e w \<Rightarrow> Throw e (setState (setIsSubmitting (\<lambda>_. False)) w)
      | Suspend w \<Rightarrow> Suspend w)"

definition Provider_submit ::
  "handler \<Rightarrow> jsobject option \<Rightarrow> provider_state world \<Rightarrow> provider_state world flow" where
  "Provider_submit onSubmit additionalData w =
     Provider_submit_finally (submit_catch (Provider_submit_try onSubmit additionalData w))"

section \<open>Consumers driving a container\<close>

datatype action =
    UpdateContent jsval
  | AddAttachment jsobject
  | RemoveAttachment jsval
  | UpdateMetadata string jsval
  | Reset
  | Submit "jsobject option"


text \<open>
  In the useState-based provider every event is followed by a render, which rebuilds
  the context value and the callbacks before the next event is handled.
\<close>

fun provider_dispatch ::
  "handler \<Rightarrow> action \<Rightarrow> provider_state world \<Rightarrow> provider_state world" where
  "provider_dispatch h (UpdateContent v) w = setState (Provider_updateContent v) w"
| "provider_dispatch h (AddAttachment a) w = setState (Provider_addAttachment a) w"
| "provider_dispatch h (RemoveAttachment i) w = setState (Provider_removeAttachment i) w"
| "provider_dispatch h (UpdateMetadata k v) w = setState (Provider_updateMetadata k v) w"
| "provider_dispatch h Reset w = setState Provider_reset w"
| "provider_dispatch h (Submit e) w = world_of (Provider_submit h e w)"

definition provider_event ::
  "handler \<Rightarrow> action \<Rightarrow> provider_state world \<Rightarrow> provider_state world" where
  "provider_event h a w = setState ComposerProvider_render (provider_dispatch h a w)"









section \<open>Submit handlers\<close>

text \<open>
  \<^verbatim>\<open>createMockFn\<close> of testingUtils.js: the mock handler resolves on every call (the calls
  it records are the \<open>handler_calls\<close> of the world). \<open>rejects_empty\<close> is a handler of an
  embedding application that refuses a message without content.
\<close>

definition createMockFn :: handler where
  "createMockFn payload = Resolved"


section \<open>The specification's reading of removeAttachment\<close>

text \<open>
  The specification's words: remove the first entry whose id matches, and nothing when
  none does.
\<close>

definition attachment_ids :: "jsobject list \<Rightarrow> jsval list" where
  "attachment_ids as = map (\<lambda>a. get_prop a ''id'') as"

fun spec_remove_first :: "jsval \<Rightarrow> jsobject list \<Rightarrow> jsobject list" where
  "spec_remove_first i [] = []"
| "spec_remove_first i (a # as) =
     (if get_prop a ''id'' = i then as else a # spec_remove_first i as)"

section \<open>The context accessor (ComposerContextValue.js)\<close>

datatype js_error = Error string

text \<open>
  \<^verbatim>\<open>useComposer\<close> declares no parameter: whatever arguments a caller passes
  (\<open>args\<close>) are not read. The context value is \<^verbatim>\<open>null\<close> (\<open>None\<close>) outside a
  provider, the default of \<^verbatim>\<open>createContext(null)\<close>.
\<close>

definition useComposer :: "'a list \<Rightarrow> 'c option \<Rightarrow> js_error + 'c" where
  "useComposer args context =
     (case context of
        None \<Rightarrow> Inl (Error ''useComposer must be used within ComposerProvider'')
      | Some c \<Rightarrow> Inr c)"

text \<open>
  What each provider passes as the context value. The store-based provider passes the
  store instance itself (\<^verbatim>\<open>value={store}\<close>), an object with \<^verbatim>\<open>getState\<close>,
  \<^verbatim>\<open>setState\<close> and \<^verbatim>\<open>subscribe\<close>; the useState-based provider passes the
  snapshot built at the last render.
\<close>

datatype 's store_api = StoreApi (getState: 's)

definition store_context :: "store_state world \<Rightarrow> store_state store_api option" where
  "store_context w = Some (StoreApi (container w))"

definition snapshot_context :: "provider_state world \<Rightarrow> composer_state option" where
  "snapshot_context w = Some (rendered (container w))"

section \<open>Properties of objects\<close>

lemma map_of_obj_set: "map_of (obj_set k v ps) = (map_of ps)(k \<mapsto> v)"
  by (induction ps) (auto simp: fun_eq_iff)

lemma map_of_fold_obj_set:
  "distinct (map fst extra) \<Longrightarrow>
   map_of (fold (\<lambda>p acc. obj_set (fst p) (snd p) acc) extra base) = map_of base ++ map_of extra"
proof (induction extra arbitrary: base)
  case Nil
  then show ?case by simp
next
  case (Cons p ps)
  from Cons.prems have fresh: "map_of ps (fst p) = None" and d: "distinct (map fst ps)"
    by (simp_all add: map_of_eq_None_iff)
  have "map_of (fold (\<lambda>p acc. obj_set (fst p) (snd p) acc) (p # ps) base)
        = (map_of base)(fst p \<mapsto> snd p) ++ map_of ps"
  proof -
    have "map_of (fold (\<lambda>p acc. obj_set (fst p) (snd p) acc) ps (obj_set (fst p) (snd p) base))
          = map_of (obj_set (fst p) (snd p) base) ++ map_of ps"
      by (rule Cons.IH [OF d])
    then show ?thesis by (simp only: fold_simps map_of_obj_set o_apply)
  qed
  also have "\<dots> = map_of base ++ map_of (p # ps)"
    using fresh by (cases p, intro ext) (simp add: map_add_def split: option.splits)
  finally show ?case .
qed

lemma map_of_spread:
  "distinct (map fst extra) \<Longrightarrow> map_of (spread base extra) = map_of base ++ map_of extra"
  by (simp add: spread_def map_of_fold_obj_set)

lemma get_prop_obj_set_same: "get_prop (obj_set k v ps) k = v"
  by (simp add: get_prop_def map_of_obj_set)

lemma submit_payload_flag [simp]:
  "submit_payload (s\<lparr>isSubmitting := b\<rparr>) e = submit_payload s e"
  by (simp add: submit_payload_def snapshot_object_def)


lemma map_of_submit_payload:
  "distinct (map fst (default_object e)) \<Longrightarrow>
   map_of (submit_payload s e)
     = [''content'' \<mapsto> content s,
        ''attachments'' \<mapsto> JArr (map JObj (attachments s)),
        ''metadata'' \<mapsto> JObj (metadata s)] ++ map_of (default_object e)"
  by (simp add: submit_payload_def map_of_spread snapshot_object_def) (auto simp: fun_eq_iff map_add_def split: option.splits)

section \<open>Properties of attachment sequences\<close>

lemma attachments_fold_addAttachment:
  "attachments (fold addAttachment items s) = attachments s @ items"
  by (induction items arbitrary: s) (simp_all add: addAttachment_def)

lemma attachments_fold_Provider_addAttachment:
  "attachments (hooks (fold Provider_addAttachment items p)) = attachments (hooks p) @ items"
  by (induction items arbitrary: p) (simp_all add: Provider_addAttachment_def setAttachments_def)

lemma filter_ids_distinct:
  "distinct (map (\<lambda>a. get_prop a ''id'') as) \<Longrightarrow>
   filter (\<lambda>a. get_prop a ''id'' \<noteq> i) as = spec_remove_first i as"
proof (induction as)
  case Nil
  then show ?case by simp
next
  case (Cons a as)
  show ?case
  proof (cases "get_prop a ''id'' = i")
    case True
    from Cons.prems have "get_prop a ''id'' \<notin> (\<lambda>a. get_prop a ''id'') ` set as" by simp
    with True have "i \<notin> (\<lambda>a. get_prop a ''id'') ` set as" by simp
    then have "\<forall>b \<in> set as. get_prop b ''id'' \<noteq> i" by blast
    then have "filter (\<lambda>a. get_prop a ''id'' \<noteq> i) as = as" by (simp add: filter_id_conv)
    with True show ?thesis by simp
  next
    case False
    with Cons show ?thesis by simp
  qed
qed

lemma filter_ids_no_match:
  "i \<notin> set (attachment_ids as) \<Longrightarrow> filter (\<lambda>a. get_prop a ''id'' \<noteq> i) as = as"
  by (induction as) (auto simp: attachment_ids_def)

lemma filter_ids_gone: "i \<notin> set (attachment_ids (filter (\<lambda>a. get_prop a ''id'' \<noteq> i) as))"
  by (auto simp: attachment_ids_def)

section \<open>Submit, evaluated\<close>

lemma store_submit_eval:
  assumes "submit (container w) = Wrapped onSubmit"
  shows "store_submit e w =
    (case onSubmit (submit_payload (container w) e) of
       Resolved \<Rightarrow> Normal (w\<lparr>container := (container w)\<lparr>content := JStr '''', attachments := [],
                       metadata := [], isSubmitting := False\<rparr>,
                     handler_calls := handler_calls w @ [submit_payload (container w) e]\<rparr>)
     | Rejected err \<Rightarrow> Normal (w\<lparr>container := (container w)\<lparr>isSubmitting := False\<rparr>,
                     handler_calls := handler_calls w @ [submit_payload (container w) e],
                     console := console w @ [ConsoleError ''Submission failed:'' err]\<rparr>)
     | Pending \<Rightarrow> Suspend (w\<lparr>container := (container w)\<lparr>isSubmitting := True\<rparr>,
                     handler_calls := handler_calls w @ [submit_payload (container w) e]\<rparr>))"
  using assms
  by (simp add: store_submit_def wrappedSubmit_def wrappedSubmit_try_def submit_catch_def
      wrappedSubmit_finally_def invoke_def setState_def reset_def console_error_def Let_def
      split: outcome.splits)

lemma Provider_submit_eval:
  "Provider_submit onSubmit e p =
    (case onSubmit (submit_payload (rendered (container p)) e) of
       Resolved \<Rightarrow> Normal (p\<lparr>container := (container p)\<lparr>hooks := (hooks (container p))\<lparr>content := JStr '''', attachments := [],
                       metadata := [], isSubmitting := False\<rparr>\<rparr>,
                     handler_calls := handler_calls p @ [submit_payload (rendered (container p)) e]\<rparr>)
     | Rejected err \<Rightarrow> Normal (p\<lparr>container := (container p)\<lparr>hooks := (hooks (container p))\<lparr>isSubmitting := False\<rparr>\<rparr>,
                     handler_calls := handler_calls p @ [submit_payload (rendered (container p)) e],
                     console := console p @ [ConsoleError ''Submission failed:'' err]\<rparr>)
     | Pending \<Rightarrow> Suspend (p\<lparr>container := (container p)\<lparr>hooks := (hooks (container p))\<lparr>isSubmitting := True\<rparr>\<rparr>,
                     handler_calls := handler_calls p @ [submit_payload (rendered (container p)) e]\<rparr>))"
  by (simp add: Provider_submit_def Provider_submit_try_def submit_catch_def
      Provider_submit_finally_def invoke_def setState_def console_error_def Let_def
      setContent_def setAttachments_def setMetadata_def setIsSubmitting_def
      split: outcome.splits)

lemma after_render [simp]:
  "rendered (container (setState ComposerProvider_render p)) = hooks (container p)"
  "hooks (container (setState ComposerProvider_render p)) = hooks (container p)"
  "handler_calls (setState f p) = handler_calls p"
  "console (setState f p) = console p"
  by (simp_all add: setState_def ComposerProvider_render_def)

section \<open>The two realizations in step\<close>













section \<open>Submit\<close>

text \<open>
  C1, as stated, fails in the useState-based provider: \<^verbatim>\<open>submit\<close> called before the
  render that follows \<^verbatim>\<open>updateContent('Hello team!')\<close> hands the handler the content of
  the previous render, \<^verbatim>\<open>''\<close>, not the content of the container.
\<close>

theorem submit_stale_payload_counterexample:
  "content (hooks (container
      (setState (Provider_updateContent (JStr ''Hello team!''))
        (ComposerProvider_useState (JStr ''''))))) = JStr ''Hello team!''
   \<and> Provider_submit createMockFn None
       (setState (Provider_updateContent (JStr ''Hello team!''))
         (ComposerProvider_useState (JStr '''')))
     = Normal \<lparr>container = \<lparr>hooks = \<lparr>content = JStr '''', attachments = [], metadata = [],
                                     isSubmitting = False\<rparr>,
                            rendered = \<lparr>content = JStr '''', attachments = [], metadata = [],
                                        isSubmitting = False\<rparr>\<rparr>,
               handler_calls = [[(''content'', JStr ''''), (''attachments'', JArr []),
                                 (''metadata'', JObj [])]],
               console = []\<rparr>"
  by (simp add: Provider_submit_eval createMockFn_def setState_def Provider_updateContent_def
      setContent_def ComposerProvider_useState_def useState_cells_def default_value_def
      submit_payload_def snapshot_object_def spread_def default_object_def Let_def)

text \<open>
  C1, amended. For every container state and every extra-data object \<open>e\<close> (or none,
  which stands for the empty object), when the handler resolves, \<^verbatim>\<open>submit(e)\<close>
  completes normally, has invoked the handler exactly once and leaves the content empty,
  no attachments, no metadata and \<^verbatim>\<open>isSubmitting\<close> false; nothing else changes. In the
  store-based provider the payload is the container's content, attachments and metadata
  merged with \<open>e\<close>. In the useState-based provider it is the content, attachments and
  metadata of the last render merged with \<open>e\<close>, which are the container's own as soon as
  a render has followed the last change.
\<close>

theorem submit_resolved_resets:
  assumes bound: "submit (container w) = Wrapped onSubmit"
    and keys: "distinct (map fst (default_object e))"
    and ok_store: "onSubmit (submit_payload (container w) e) = Resolved"
    and ok_provider: "onSubmit (submit_payload (rendered (container p)) e) = Resolved"
  shows "store_submit e w =
           Normal (w\<lparr>container := (container w)\<lparr>content := JStr '''', attachments := [],
                                  metadata := [], isSubmitting := False\<rparr>,
                    handler_calls := handler_calls w @ [submit_payload (container w) e]\<rparr>)
       \<and> map_of (submit_payload (container w) e)
           = [''content'' \<mapsto> content (container w),
              ''attachments'' \<mapsto> JArr (map JObj (attachments (container w))),
              ''metadata'' \<mapsto> JObj (metadata (container w))] ++ map_of (default_object e)
       \<and> Provider_submit onSubmit e p =
           Normal (p\<lparr>container := \<lparr>hooks = \<lparr>content = JStr '''', attachments = [],
                                           metadata = [], isSubmitting = False\<rparr>,
                                  rendered = rendered (container p)\<rparr>,
                    handler_calls :=
                      handler_calls p @ [submit_payload (rendered (container p)) e]\<rparr>)
       \<and> map_of (submit_payload (rendered (container p)) e)
           = [''content'' \<mapsto> content (rendered (container p)),
              ''attachments'' \<mapsto> JArr (map JObj (attachments (rendered (container p)))),
              ''metadata'' \<mapsto> JObj (metadata (rendered (container p)))]
             ++ map_of (default_object e)
       \<and> rendered (container (setState ComposerProvider_render p)) = hooks (container p)"
proof (intro conjI)
  show "store_submit e w =
           Normal (w\<lparr>container := (container w)\<lparr>content := JStr '''', attachments := [],
                                  metadata := [], isSubmitting := False\<rparr>,
                    handler_calls := handler_calls w @ [submit_payload (container w) e]\<rparr>)"
    using ok_store by (simp add: store_submit_eval [OF bound])
  show "map_of (submit_payload (container w) e)
           = [''content'' \<mapsto> content (container w),
              ''attachments'' \<mapsto> JArr (map JObj (attachments (container w))),
              ''metadata'' \<mapsto> JObj (metadata (container w))] ++ map_of (default_object e)"
    using keys by (rule map_of_submit_payload)
  show "Provider_submit onSubmit e p =
           Normal (p\<lparr>container := \<lparr>hooks = \<lparr>content = JStr '''', attachments = [],
                                           metadata = [], isSubmitting = False\<rparr>,
                                  rendered = rendered (container p)\<rparr>,
                    handler_calls :=
                      handler_calls p @ [submit_payload (rendered (container p)) e]\<rparr>)"
    using ok_provider by (simp add: Provider_submit_eval)
  show "map_of (submit_payload (rendered (container p)) e)
           = [''content'' \<mapsto> content (rendered (container p)),
              ''attachments'' \<mapsto> JArr (map JObj (attachments (rendered (container p)))),
              ''metadata'' \<mapsto> JObj (metadata (rendered (container p)))]
             ++ map_of (default_object e)"
    using keys by (rule map_of_submit_payload)
  show "rendered (container (setState ComposerProvider_render p)) = hooks (container p)"
    by simp
qed

theorem submit_resolved_resets_witness:
  "store_submit (Some [(''channel'', JStr ''general'')])
     (setState (updateContent (JStr ''Hello team!''))
       (ComposerProvider_store
         (\<lambda>payload. if get_prop payload ''channel'' = JStr ''general'' then Resolved
                     else Rejected (JStr ''no such channel''))
         JUndefined))
   = Normal \<lparr>container = \<lparr>content = JStr '''', attachments = [], metadata = [],
                           isSubmitting = False,
                           submit = Wrapped
                             (\<lambda>payload. if get_prop payload ''channel'' = JStr ''general''
                                         then Resolved else Rejected (JStr ''no such channel''))\<rparr>,
             handler_calls = [[(''content'', JStr ''Hello team!''), (''attachments'', JArr []),
                               (''metadata'', JObj []), (''channel'', JStr ''general'')]],
             console = []\<rparr>
   \<and> Provider_submit
       (\<lambda>payload. if get_prop payload ''channel'' = JStr ''general'' then Resolved
                   else Rejected (JStr ''no such channel''))
       (Some [(''channel'', JStr ''general'')])
       (setState ComposerProvider_render
         (setState (Provider_updateContent (JStr ''Hello team!''))
           (ComposerProvider_useState JUndefined)))
   = Normal \<lparr>container = \<lparr>hooks = \<lparr>content = JStr '''', attachments = [], metadata = [],
                                   isSubmitting = False\<rparr>,
                          rendered = \<lparr>content = JStr ''Hello team!'', attachments = [],
                                      metadata = [], isSubmitting = False\<rparr>\<rparr>,
             handler_calls = [[(''content'', JStr ''Hello team!''), (''attachments'', JArr []),
                               (''metadata'', JObj []), (''channel'', JStr ''general'')]],
             console = []\<rparr>"
proof -
  let ?e = "[(''channel'', JStr ''general'')]"
  let ?h = "\<lambda>payload. if get_prop payload ''channel'' = JStr ''general'' then Resolved
                     else Rejected (JStr ''no such channel'')"
  let ?w = "setState (updateContent (JStr ''Hello team!'')) (ComposerProvider_store ?h JUndefined)"
  let ?p = "setState ComposerProvider_render
              (setState (Provider_updateContent (JStr ''Hello team!''))
                (ComposerProvider_useState JUndefined))"
  have bound: "submit (container ?w) = Wrapped ?h"
    by (simp add: setState_def updateContent_def ComposerProvider_store_def)
  have keys: "distinct (map fst (default_object (Some ?e)))"
    by (simp add: default_object_def)
  have ok1: "?h (submit_payload (container ?w) (Some ?e)) = Resolved"
    by (simp add: submit_payload_def snapshot_object_def spread_def default_object_def
        get_prop_def)
  have ok2: "?h (submit_payload (rendered (container ?p)) (Some ?e)) = Resolved"
    by (simp add: submit_payload_def snapshot_object_def spread_def default_object_def
        get_prop_def)
  from submit_resolved_resets [where w = ?w and onSubmit = ?h and e = "Some ?e" and p = ?p,
      OF bound keys ok1 ok2]
  show ?thesis
    by (simp add: setState_def updateContent_def ComposerProvider_store_def
        createComposerStore_def default_value_def submit_payload_def snapshot_object_def
        spread_def default_object_def Provider_updateContent_def setContent_def
        ComposerProvider_useState_def useState_cells_def ComposerProvider_render_def Let_def)
qed



text \<open>
  C10. Extra data wins over the snapshot in the payload: for every key \<open>k\<close> of the extra
  object \<open>e\<close>, also \<^verbatim>\<open>content\<close>, \<^verbatim>\<open>attachments\<close> or \<^verbatim>\<open>metadata\<close>, the handler
  receives \<open>e\<close>'s value for \<open>k\<close>. The container itself is reset, or kept, according to
  the handler's outcome only: the values of \<open>e\<close> are never written into it.
\<close>

theorem extra_overrides_snapshot:
  assumes bound: "submit (container w) = Wrapped onSubmit"
    and keys: "distinct (map fst e)"
    and given: "map_of e k = Some v"
  shows "get_prop (submit_payload (container w) (Some e)) k = v
       \<and> get_prop (submit_payload (rendered (container p)) (Some e)) k = v
       \<and> handler_calls (world_of (store_submit (Some e) w))
           = handler_calls w @ [submit_payload (container w) (Some e)]
       \<and> handler_calls (world_of (Provider_submit onSubmit (Some e) p))
           = handler_calls p @ [submit_payload (rendered (container p)) (Some e)]
       \<and> container (world_of (store_submit (Some e) w))
           = (case onSubmit (submit_payload (container w) (Some e)) of
                Resolved \<Rightarrow> (container w)\<lparr>content := JStr '''', attachments := [],
                              metadata := [], isSubmitting := False\<rparr>
              | Rejected err \<Rightarrow> (container w)\<lparr>isSubmitting := False\<rparr>
              | Pending \<Rightarrow> (container w)\<lparr>isSubmitting := True\<rparr>)
       \<and> hooks (container (world_of (Provider_submit onSubmit (Some e) p)))
           = (case onSubmit (submit_payload (rendered (container p)) (Some e)) of
                Resolved \<Rightarrow> (hooks (container p))\<lparr>content := JStr '''', attachments := [],
                              metadata := [], isSubmitting := False\<rparr>
              | Rejected err \<Rightarrow> (hooks (container p))\<lparr>isSubmitting := False\<rparr>
              | Pending \<Rightarrow> (hooks (container p))\<lparr>isSubmitting := True\<rparr>)"
proof -
  have over: "get_prop (submit_payload s (Some e)) k = v" for s :: "'a composer_state_scheme"
    using keys given
    by (simp add: get_prop_def submit_payload_def default_object_def map_of_spread map_add_def)
  show ?thesis
    by (intro conjI)
       (simp_all add: over store_submit_eval [OF bound] Provider_submit_eval
         split: outcome.splits)
qed

theorem extra_overrides_snapshot_witness:
  "get_prop (submit_payload
       (container (setState (updateContent (JStr ''hi'')) (ComposerProvider_store (\<lambda>_. Resolved) JUndefined)))
       (Some [(''content'', JStr ''override'')])) ''content'' = JStr ''override''
   \<and> handler_calls (world_of (store_submit (Some [(''content'', JStr ''override'')])
        (setState (updateContent (JStr ''hi'')) (ComposerProvider_store (\<lambda>_. Resolved) JUndefined))))
      = [[(''content'', JStr ''override''), (''attachments'', JArr []), (''metadata'', JObj [])]]
   \<and> content (container (world_of (store_submit (Some [(''content'', JStr ''override'')])
        (setState (updateContent (JStr ''hi'')) (ComposerProvider_store (\<lambda>_. Resolved) JUndefined)))))
      = JStr ''''"
proof -
  let ?e = "[(''content'', JStr ''override'')]"
  let ?h = "\<lambda>_::jsobject. Resolved"
  let ?w = "setState (updateContent (JStr ''hi'')) (ComposerProvider_store ?h JUndefined)"
  have bound: "submit (container ?w) = Wrapped ?h"
    by (simp add: setState_def updateContent_def ComposerProvider_store_def)
  have keys: "distinct (map fst ?e)" by simp
  have given: "map_of ?e ''content'' = Some (JStr ''override'')" by simp
  from extra_overrides_snapshot [where w = ?w and onSubmit = ?h and e = ?e
      and k = "''content''" and v = "JStr ''override''", OF bound keys given]
  show ?thesis
    by (simp add: setState_def updateContent_def ComposerProvider_store_def
        createComposerStore_def default_value_def submit_payload_def snapshot_object_def
        spread_def default_object_def)
qed

section \<open>Attachments and metadata\<close>

text \<open>
  C3, as stated, fails: with two attachments of id 1, \<^verbatim>\<open>removeAttachment(1)\<close> leaves
  none, where removing only the first match would leave the second.
\<close>

theorem removeAttachment_first_only_counterexample:
  "attachments (removeAttachment (JNum 1)
      (addAttachment [(''id'', JNum 1), (''name'', JStr ''b.pdf'')]
        (addAttachment [(''id'', JNum 1), (''name'', JStr ''a.pdf'')]
          (createComposerStore (JStr ''''))))) = []
   \<and> spec_remove_first (JNum 1)
        (attachments
          (addAttachment [(''id'', JNum 1), (''name'', JStr ''b.pdf'')]
            (addAttachment [(''id'', JNum 1), (''name'', JStr ''a.pdf'')]
              (createComposerStore (JStr ''''))))) = [[(''id'', JNum 1), (''name'', JStr ''b.pdf'')]]"
  by (simp add: removeAttachment_def addAttachment_def createComposerStore_def get_prop_def)

text \<open>
  C3, amended. \<^verbatim>\<open>removeAttachment(id)\<close> removes every entry whose id matches and keeps
  the entries of every other id, in order; it changes nothing when no entry matches;
  when the ids are unique it removes exactly the first (the only) matching entry. The
  useState-based provider computes the same sequence.
\<close>

theorem removeAttachment_removes_every_match:
  "attachments (removeAttachment i s) = filter (\<lambda>a. get_prop a ''id'' \<noteq> i) (attachments s)
   \<and> attachments (removeAttachment i (s\<lparr>attachments := xs @ [a] @ ys\<rparr>))
       = attachments (removeAttachment i (s\<lparr>attachments := xs\<rparr>))
         @ (if get_prop a ''id'' = i then [] else [a])
         @ attachments (removeAttachment i (s\<lparr>attachments := ys\<rparr>))
   \<and> i \<notin> set (attachment_ids (attachments (removeAttachment i s)))
   \<and> (i \<notin> set (attachment_ids (attachments s)) \<longrightarrow> removeAttachment i s = s)
   \<and> (distinct (attachment_ids (attachments s)) \<longrightarrow>
        attachments (removeAttachment i s) = spec_remove_first i (attachments s))
   \<and> attachments (hooks (Provider_removeAttachment i p))
        = filter (\<lambda>a. get_prop a ''id'' \<noteq> i) (attachments (hooks p))"
proof (intro conjI impI)
  show "attachments (removeAttachment i s)
        = filter (\<lambda>a. get_prop a ''id'' \<noteq> i) (attachments s)"
    by (simp add: removeAttachment_def)
  show "attachments (removeAttachment i (s\<lparr>attachments := xs @ [a] @ ys\<rparr>))
       = attachments (removeAttachment i (s\<lparr>attachments := xs\<rparr>))
         @ (if get_prop a ''id'' = i then [] else [a])
         @ attachments (removeAttachment i (s\<lparr>attachments := ys\<rparr>))"
    by (simp add: removeAttachment_def)
  show "i \<notin> set (attachment_ids (attachments (removeAttachment i s)))"
    by (simp add: removeAttachment_def filter_ids_gone)
  show "removeAttachment i s = s" if "i \<notin> set (attachment_ids (attachments s))"
    using that by (simp add: removeAttachment_def filter_ids_no_match)
  show "attachments (removeAttachment i s) = spec_remove_first i (attachments s)"
    if "distinct (attachment_ids (attachments s))"
    using that by (simp add: removeAttachment_def attachment_ids_def filter_ids_distinct)
  show "attachments (hooks (Provider_removeAttachment i p))
        = filter (\<lambda>a. get_prop a ''id'' \<noteq> i) (attachments (hooks p))"
    by (simp add: Provider_removeAttachment_def setAttachments_def)
qed

theorem removeAttachment_removes_every_match_witness:
  "attachments (removeAttachment (JNum 1)
      \<lparr>content = JStr '''',
       attachments = [[(''id'', JNum 1), (''name'', JStr ''a.pdf'')],
                      [(''id'', JNum 2), (''name'', JStr ''b.pdf'')]],
       metadata = [], isSubmitting = False, submit = Placeholder\<rparr>)
     = [[(''id'', JNum 2), (''name'', JStr ''b.pdf'')]]
   \<and> spec_remove_first (JNum 1)
       [[(''id'', JNum 1), (''name'', JStr ''a.pdf'')],
        [(''id'', JNum 2), (''name'', JStr ''b.pdf'')]]
     = [[(''id'', JNum 2), (''name'', JStr ''b.pdf'')]]
   \<and> removeAttachment (JNum 3)
      \<lparr>content = JStr '''',
       attachments = [[(''id'', JNum 1), (''name'', JStr ''a.pdf'')],
                      [(''id'', JNum 2), (''name'', JStr ''b.pdf'')]],
       metadata = [], isSubmitting = False, submit = Placeholder\<rparr>
     = \<lparr>content = JStr '''',
       attachments = [[(''id'', JNum 1), (''name'', JStr ''a.pdf'')],
                      [(''id'', JNum 2), (''name'', JStr ''b.pdf'')]],
       metadata = [], isSubmitting = False, submit = Placeholder\<rparr>"
proof -
  let ?s = "\<lparr>content = JStr '''',
       attachments = [[(''id'', JNum 1), (''name'', JStr ''a.pdf'')],
                      [(''id'', JNum 2), (''name'', JStr ''b.pdf'')]],
       metadata = [], isSubmitting = False, submit = Placeholder\<rparr>"
  have absent: "JNum 3 \<notin> set (attachment_ids (attachments ?s))"
    by (simp add: attachment_ids_def get_prop_def)
  have unique: "distinct (attachment_ids (attachments ?s))"
    by (simp add: attachment_ids_def get_prop_def)
  from removeAttachment_removes_every_match [where i = "JNum 1" and s = ?s]
    removeAttachment_removes_every_match [where i = "JNum 3" and s = ?s]
    absent unique
  show ?thesis
    by (simp add: get_prop_def)
qed

text \<open>
  C6. \<^verbatim>\<open>updateMetadata(k, v)\<close> overlays \<open>k \<mapsto> v\<close> on the metadata mapping. After
  \<^verbatim>\<open>updateMetadata(k, v)\<close> and \<^verbatim>\<open>updateMetadata(k, v2)\<close> the mapping is the original
  one with \<open>k \<mapsto> v2\<close>: \<open>k\<close> reads \<open>v2\<close> and every other key reads what it read
  before. Both realizations.
\<close>

theorem updateMetadata_overwrites:
  "map_of (metadata (updateMetadata k v2 (updateMetadata k v s))) = (map_of (metadata s))(k \<mapsto> v2)
   \<and> get_prop (metadata (updateMetadata k v2 (updateMetadata k v s))) k = v2
   \<and> map_of (metadata (updateMetadata k v s)) = (map_of (metadata s))(k \<mapsto> v)
   \<and> map_of (metadata (hooks (Provider_updateMetadata k v2 (Provider_updateMetadata k v p))))
        = (map_of (metadata (hooks p)))(k \<mapsto> v2)
   \<and> get_prop (metadata (hooks (Provider_updateMetadata k v2 (Provider_updateMetadata k v p)))) k = v2"
  by (simp add: updateMetadata_def Provider_updateMetadata_def setMetadata_def map_of_obj_set
      get_prop_obj_set_same)

text \<open>
  C7. Starting from a new container, a sequence of \<^verbatim>\<open>addAttachment\<close> calls yields
  exactly the items added, in call order, so as many entries as calls; from any state
  the items are appended to what was there. No item is dropped, whatever its id. Both
  realizations.
\<close>

theorem addAttachment_sequence:
  "attachments (fold addAttachment items (createComposerStore iv)) = items
   \<and> length (attachments (fold addAttachment items (createComposerStore iv))) = length items
   \<and> attachments (fold addAttachment items s) = attachments s @ items
   \<and> attachments (hooks (fold Provider_addAttachment items
        (container (ComposerProvider_useState iv)))) = items
   \<and> attachments (hooks (fold Provider_addAttachment items p)) = attachments (hooks p) @ items"
  by (simp add: attachments_fold_addAttachment attachments_fold_Provider_addAttachment
      createComposerStore_def ComposerProvider_useState_def useState_cells_def Let_def)

text \<open>
  C5. After \<^verbatim>\<open>reset()\<close> the content is the empty string, the attachment sequence and
  the metadata mapping are empty, and \<^verbatim>\<open>isSubmitting\<close> is what it was before, in both
  realizations.
\<close>

theorem reset_clears_and_keeps_flag:
  "reset s = s\<lparr>content := JStr '''', attachments := [], metadata := []\<rparr>
   \<and> content (reset s) = JStr '''' \<and> attachments (reset s) = [] \<and> metadata (reset s) = []
   \<and> isSubmitting (reset s) = isSubmitting s
   \<and> hooks (Provider_reset p)
        = (hooks p)\<lparr>content := JStr '''', attachments := [], metadata := []\<rparr>
   \<and> isSubmitting (hooks (Provider_reset p)) = isSubmitting (hooks p)"
  by (simp add: reset_def Provider_reset_def setContent_def setAttachments_def setMetadata_def)

section \<open>The accessor\<close>

text \<open>
  C4, evaluated on the code. A consumer that calls
  \<^verbatim>\<open>useComposer(state => state.content)\<close> while the content is \<^verbatim>\<open>'hi'\<close> does not
  receive the slice \<^verbatim>\<open>'hi'\<close>: the selector is not applied. Under the store-based
  provider it receives the store instance, under the useState-based provider the
  whole snapshot, exactly as a call without selector does.
\<close>

theorem useComposer_ignores_selector:
  "useComposer [content :: store_state \<Rightarrow> jsval]
     (store_context (setState (updateContent (JStr ''hi''))
                      (ComposerProvider_store (\<lambda>_. Resolved) JUndefined)))
   = Inr (StoreApi \<lparr>content = JStr ''hi'', attachments = [], metadata = [],
                     isSubmitting = False, submit = Wrapped (\<lambda>_. Resolved)\<rparr>)
   \<and> useComposer [content :: composer_state \<Rightarrow> jsval]
     (snapshot_context (provider_event (\<lambda>_. Resolved) (UpdateContent (JStr ''hi''))
                         (ComposerProvider_useState JUndefined)))
   = Inr \<lparr>content = JStr ''hi'', attachments = [], metadata = [], isSubmitting = False\<rparr>"
  by (simp add: useComposer_def store_context_def snapshot_context_def setState_def
      updateContent_def ComposerProvider_store_def createComposerStore_def default_value_def
      provider_event_def Provider_updateContent_def setContent_def ComposerProvider_render_def
      ComposerProvider_useState_def useState_cells_def Let_def)

text \<open>
  C8. Outside any provider the context value is \<^verbatim>\<open>null\<close>, and \<^verbatim>\<open>useComposer\<close> throws
  the error "useComposer must be used within ComposerProvider" instead of returning a
  value, whatever arguments it is called with.
\<close>

theorem useComposer_outside_provider:
  "useComposer args None = Inl (Error ''useComposer must be used within ComposerProvider'')"
  by (simp add: useComposer_def)

section \<open>The two realizations\<close>




end
